theory Spec2Isabelle
  imports Main "HOL-Library.Word" "HOL-Library.Sublist"
begin

unbundle bit_operations_syntax

section \<open>The Shop table and its storage client\<close>

text \<open>
  The table \<^verbatim>\<open>Shop\<close> of the migrations: one row per storefront, found through the
  unique index on \<^verbatim>\<open>domain\<close>. A row is modelled by the columns the application
  reads or writes (\<^verbatim>\<open>credits INTEGER NOT NULL DEFAULT 10\<close>, \<^verbatim>\<open>brandVoice TEXT\<close>,
  \<^verbatim>\<open>isOnboarded BOOLEAN NOT NULL DEFAULT false\<close>); the generated \<^verbatim>\<open>id\<close> and the two
  timestamps are left out. The table is a map from the domain to the row, so the
  unique index holds by construction. The column \<^verbatim>\<open>credits\<close> is an unbounded integer
  here: the table declares no \<^verbatim>\<open>CHECK\<close> constraint on it.
\<close>

record shop =
  credits :: int
  brandVoice :: "string option"
  isOnboarded :: bool

type_synonym shop_table = "string \<rightharpoonup> shop"

text \<open>The errors the storage client raises in this model.\<close>

datatype prisma_error = RecordNotFound | UniqueConstraintFailed

text \<open>The row that \<^verbatim>\<open>prisma.shop.create({ data: { domain } })\<close> inserts: every
  other column takes its default.\<close>

definition created_shop :: shop where
  "created_shop = \<lparr>credits = 10, brandVoice = None, isOnboarded = False\<rparr>"

text \<open>\<^verbatim>\<open>prisma.shop.findUnique({ where: { domain }, select: { credits: true } })\<close>:
  the selected column of the row, or null.\<close>

definition shop_findUnique :: "string \<Rightarrow> shop_table \<Rightarrow> int option" where
  "shop_findUnique domain db = map_option credits (db domain)"

text \<open>\<^verbatim>\<open>prisma.shop.create({ data: { domain }, select: { credits: true } })\<close>:
  rejected by the unique index when the domain is already there.\<close>

definition shop_create :: "string \<Rightarrow> shop_table \<Rightarrow> (prisma_error + int) \<times> shop_table" where
  "shop_create domain db =
     (case db domain of
        Some row \<Rightarrow> (Inl UniqueConstraintFailed, db)
      | None \<Rightarrow> (Inr (credits created_shop), db(domain \<mapsto> created_shop)))"

text \<open>\<^verbatim>\<open>prisma.shop.update({ where: { domain }, data: { credits: { decrement: amount } },
  select: { credits: true } })\<close>: one relative update of the row, raising when no row has
  the domain.\<close>

definition shop_update_decrement ::
  "string \<Rightarrow> int \<Rightarrow> shop_table \<Rightarrow> (prisma_error + int) \<times> shop_table" where
  "shop_update_decrement domain amount db =
     (case db domain of
        None \<Rightarrow> (Inl RecordNotFound, db)
      | Some row \<Rightarrow>
          (Inr (credits row - amount), db(domain \<mapsto> row\<lparr>credits := credits row - amount\<rparr>)))"


section \<open>The credit service\<close>

record CheckBalanceResult =
  hasCredits :: bool
  balance :: int

record DeductCreditResult =
  success :: bool
  newBalance :: int

text \<open>
  \<^verbatim>\<open>checkBalance\<close> awaits the lookup and, when it found no row, awaits the insert:
  two storage calls, with the other requests of the application free to run in between.
  What they do to the Shop table between the two is the parameter \<open>between\<close>; the
  identity is a call with no other request at work. The function has no handler of its
  own: an error of the storage client leaves it as an exception, the left summand of
  the result.
\<close>

definition checkBalance ::
  "(shop_table \<Rightarrow> shop_table) \<Rightarrow> string \<Rightarrow> shop_table \<Rightarrow>
   (prisma_error + CheckBalanceResult) \<times> shop_table" where
  "checkBalance between shopId db =
     (case shop_findUnique shopId db of
        None \<Rightarrow>
          (case shop_create shopId (between db) of
             (Inl err, db') \<Rightarrow> (Inl err, db')
           | (Inr newShop_credits, db') \<Rightarrow>
               (Inr \<lparr>hasCredits = newShop_credits > 0, balance = newShop_credits\<rparr>, db'))
      | Some shop_credits \<Rightarrow>
          (Inr \<lparr>hasCredits = shop_credits > 0, balance = shop_credits\<rparr>, db))"

text \<open>\<^verbatim>\<open>deductCredit\<close> catches every error of the update and answers
  \<^verbatim>\<open>{ success: false, newBalance: 0 }\<close>. The argument \<^verbatim>\<open>amount\<close> is passed
  explicitly; the source's default is 1.\<close>

definition deductCredit ::
  "string \<Rightarrow> int \<Rightarrow> shop_table \<Rightarrow> DeductCreditResult \<times> shop_table" where
  "deductCredit shopId amount db =
     (case shop_update_decrement shopId amount db of
        (Inr shop_credits, db') \<Rightarrow> (\<lparr>success = True, newBalance = shop_credits\<rparr>, db')
      | (Inl error, db') \<Rightarrow> (\<lparr>success = False, newBalance = 0\<rparr>, db'))"

text \<open>\<^verbatim>\<open>getBalance\<close> is \<^verbatim>\<open>checkBalance\<close> with the flag dropped.\<close>

definition getBalance ::
  "(shop_table \<Rightarrow> shop_table) \<Rightarrow> string \<Rightarrow> shop_table \<Rightarrow> (prisma_error + int) \<times> shop_table" where
  "getBalance between shopId db =
     (case checkBalance between shopId db of
        (Inl err, db') \<Rightarrow> (Inl err, db')
      | (Inr result, db') \<Rightarrow> (Inr (balance result), db'))"

text \<open>A run of debits against one tenant, each on the table the previous one left.\<close>

fun deductCredits :: "string \<Rightarrow> int list \<Rightarrow> shop_table \<Rightarrow> DeductCreditResult list \<times> shop_table" where
  "deductCredits shopId [] db = ([], db)"
| "deductCredits shopId (amount # amounts) db =
     (case deductCredit shopId amount db of
        (r, db') \<Rightarrow> (case deductCredits shopId amounts db' of (rs, db'') \<Rightarrow> (r # rs, db'')))"

text \<open>Every amount of the run is covered by the balance it meets.\<close>

fun covered :: "int \<Rightarrow> int list \<Rightarrow> bool" where
  "covered b [] = True"
| "covered b (amount # amounts) = (amount \<le> b \<and> covered (b - amount) amounts)"


section \<open>The hashing utility\<close>

text \<open>
  Strings are byte lists: a JavaScript string stands for its UTF-8 encoding (a string
  with an unpaired surrogate has none and is outside the model).
  \<^verbatim>\<open>Product\<close> is the interface of the hashing utility; TypeScript's structural
  typing lets an object with more properties stand where \<^verbatim>\<open>Product\<close> is asked for,
  which is what the extensible record says.
\<close>

record Product =
  title :: string
  description :: string
  vendor :: string

text \<open>
  \<^verbatim>\<open>createHash('sha256').update(normalized).digest('hex')\<close> is Node's SHA-256, the
  function of FIPS 180-4, written out here so that the digest can be computed: the
  message is padded to whole 64-byte blocks (a byte \<open>0x80\<close>, zeros, the length in bits
  as a 64-bit big-endian number), each block is expanded to 64 words and compressed into
  the state of eight 32-bit words, and the final state is printed as 64 lowercase
  hexadecimal digits.
\<close>

type_synonym byte = "8 word"
type_synonym w32 = "32 word"
type_synonym hash_state = "w32 \<times> w32 \<times> w32 \<times> w32 \<times> w32 \<times> w32 \<times> w32 \<times> w32"

definition rotr :: "nat \<Rightarrow> w32 \<Rightarrow> w32" where
  "rotr n x = drop_bit n x OR push_bit (32 - n) x"

definition Ch :: "w32 \<Rightarrow> w32 \<Rightarrow> w32 \<Rightarrow> w32" where
  "Ch x y z = (x AND y) XOR (NOT x AND z)"

definition Maj :: "w32 \<Rightarrow> w32 \<Rightarrow> w32 \<Rightarrow> w32" where
  "Maj x y z = (x AND y) XOR (x AND z) XOR (y AND z)"

definition Sigma0 :: "w32 \<Rightarrow> w32" where
  "Sigma0 x = rotr 2 x XOR rotr 13 x XOR rotr 22 x"

definition Sigma1 :: "w32 \<Rightarrow> w32" where
  "Sigma1 x = rotr 6 x XOR rotr 11 x XOR rotr 25 x"

definition sigma0 :: "w32 \<Rightarrow> w32" where
  "sigma0 x = rotr 7 x XOR rotr 18 x XOR drop_bit 3 x"

definition sigma1 :: "w32 \<Rightarrow> w32" where
  "sigma1 x = rotr 17 x XOR rotr 19 x XOR drop_bit 10 x"

text \<open>The round constants are the first 32 bits of the fractional parts of the cube
  roots of the first 64 primes, the initial state those of the square roots of the
  first 8 primes.\<close>

definition K256 :: "w32 list" where
  "K256 =
     [1116352408, 1899447441, 3049323471, 3921009573,
      961987163, 1508970993, 2453635748, 2870763221,
      3624381080, 310598401, 607225278, 1426881987,
      1925078388, 2162078206, 2614888103, 3248222580,
      3835390401, 4022224774, 264347078, 604807628,
      770255983, 1249150122, 1555081692, 1996064986,
      2554220882, 2821834349, 2952996808, 3210313671,
      3336571891, 3584528711, 113926993, 338241895,
      666307205, 773529912, 1294757372, 1396182291,
      1695183700, 1986661051, 2177026350, 2456956037,
      2730485921, 2820302411, 3259730800, 3345764771,
      3516065817, 3600352804, 4094571909, 275423344,
      430227734, 506948616, 659060556, 883997877,
      958139571, 1322822218, 1537002063, 1747873779,
      1955562222, 2024104815, 2227730452, 2361852424,
      2428436474, 2756734187, 3204031479, 3329325298]"

definition H256 :: hash_state where
  "H256 = (1779033703, 3144134277, 1013904242, 2773480762,
           1359893119, 2600822924, 528734635, 1541459225)"

fun sha_round :: "hash_state \<Rightarrow> w32 \<times> w32 \<Rightarrow> hash_state" where
  "sha_round (a, b, c, d, e, f, g, h) (k, w) =
     (let t1 = h + Sigma1 e + Ch e f g + k + w;
          t2 = Sigma0 a + Maj a b c
      in (t1 + t2, a, b, c, d + t1, e, f, g))"

fun schedule :: "nat \<Rightarrow> w32 list \<Rightarrow> w32 list" where
  "schedule 0 ws = ws"
| "schedule (Suc n) ws =
     schedule n
       (ws @ [sigma1 (ws ! (length ws - 2)) + ws ! (length ws - 7) +
              sigma0 (ws ! (length ws - 15)) + ws ! (length ws - 16)])"

fun be_words :: "byte list \<Rightarrow> w32 list" where
  "be_words (b0 # b1 # b2 # b3 # bs) =
     (push_bit 24 (ucast b0) OR push_bit 16 (ucast b1) OR push_bit 8 (ucast b2) OR ucast b3)
       # be_words bs"
| "be_words bs = []"

fun add_state :: "hash_state \<Rightarrow> hash_state \<Rightarrow> hash_state" where
  "add_state (a, b, c, d, e, f, g, h) (a', b', c', d', e', f', g', h') =
     (a + a', b + b', c + c', d + d', e + e', f + f', g + g', h + h')"

definition compress :: "hash_state \<Rightarrow> byte list \<Rightarrow> hash_state" where
  "compress H block = add_state H (foldl sha_round H (zip K256 (schedule 48 (be_words block))))"

definition pad :: "byte list \<Rightarrow> byte list" where
  "pad m =
     m @ [0x80] @ replicate ((119 - length m mod 64) mod 64) 0 @
     map (\<lambda>i. ucast (drop_bit (8 * (7 - i)) (8 * (of_nat (length m) :: 64 word)))) [0..<8]"

fun chunks :: "nat \<Rightarrow> byte list \<Rightarrow> byte list list" where
  "chunks 0 bs = []"
| "chunks (Suc n) bs = take 64 bs # chunks n (drop 64 bs)"

definition sha256 :: "byte list \<Rightarrow> hash_state" where
  "sha256 m = foldl compress H256 (chunks (length (pad m) div 64) (pad m))"

definition hexdigit :: "nat \<Rightarrow> char" where
  "hexdigit n = ''0123456789abcdef'' ! (n mod 16)"

definition hex_byte :: "byte \<Rightarrow> string" where
  "hex_byte b = [hexdigit (unat (drop_bit 4 b)), hexdigit (unat (b AND 15))]"

definition be_bytes :: "w32 \<Rightarrow> byte list" where
  "be_bytes w = [ucast (drop_bit 24 w), ucast (drop_bit 16 w), ucast (drop_bit 8 w), ucast w]"

fun digest :: "hash_state \<Rightarrow> byte list" where
  "digest (a, b, c, d, e, f, g, h) =
     be_bytes a @ be_bytes b @ be_bytes c @ be_bytes d @
     be_bytes e @ be_bytes f @ be_bytes g @ be_bytes h"

definition sha256_hex :: "string \<Rightarrow> string" where
  "sha256_hex s = concat (map hex_byte (digest (sha256 (map of_char s))))"

text \<open>
  \<^verbatim>\<open>JSON.stringify\<close> on an object whose property values are strings, as ECMAScript
  defines it: the properties in the order the object literal lists them, each as the
  quoted key, a colon and the quoted value, separated by commas, with no white space.
  Quoting escapes the double quote, the backslash and the control characters below
  \<open>0x20\<close>; every other byte is copied, so the UTF-8 encoding of a character beyond
  ASCII passes unchanged.
\<close>

definition QuoteJSONChar :: "char \<Rightarrow> string" where
  "QuoteJSONChar c =
     (if c = CHR 0x08 then [CHR 0x5C, CHR ''b'']
      else if c = CHR 0x09 then [CHR 0x5C, CHR ''t'']
      else if c = CHR 0x0A then [CHR 0x5C, CHR ''n'']
      else if c = CHR 0x0C then [CHR 0x5C, CHR ''f'']
      else if c = CHR 0x0D then [CHR 0x5C, CHR ''r'']
      else if c = CHR 0x22 then [CHR 0x5C, CHR 0x22]
      else if c = CHR 0x5C then [CHR 0x5C, CHR 0x5C]
      else if (of_char c :: nat) < 0x20 then
        [CHR 0x5C, CHR ''u'', CHR ''0'', CHR ''0'',
         hexdigit (of_char c div 16), hexdigit (of_char c mod 16)]
      else [c])"

definition QuoteJSONString :: "string \<Rightarrow> string" where
  "QuoteJSONString s = [CHR 0x22] @ concat (map QuoteJSONChar s) @ [CHR 0x22]"

fun join_with :: "string \<Rightarrow> string list \<Rightarrow> string" where
  "join_with sep [] = []"
| "join_with sep [x] = x"
| "join_with sep (x # y # ys) = x @ sep @ join_with sep (y # ys)"

definition JSON_stringify :: "(string \<times> string) list \<Rightarrow> string" where
  "JSON_stringify properties =
     ''{'' @ join_with '','' (map (\<lambda>(key, v). QuoteJSONString key @ '':'' @ QuoteJSONString v) properties) @ ''}''"

text \<open>\<^verbatim>\<open>generateProductHash\<close> reads three properties of its argument and nothing
  else; the argument may have more.\<close>

definition generateProductHash :: "'a Product_scheme \<Rightarrow> string" where
  "generateProductHash p =
     (let normalized = JSON_stringify
        [(''description'', description p), (''title'', title p), (''vendor'', vendor p)]
      in sha256_hex normalized)"


section \<open>The AI service\<close>

text \<open>\<^verbatim>\<open>ProductInput\<close> is the product as the AI service takes it: the three
  properties of \<^verbatim>\<open>Product\<close> and two optional ones.\<close>

record ProductInput = Product +
  price :: "string option"
  sku :: "string option"

record GenerateSchemaInput =
  shopId :: string
  product :: ProductInput
  brandVoice :: string

text \<open>The result carries the object the adapter returned, of type
  \<^verbatim>\<open>z.infer\<close> of the Zod schema; the function hands it on untouched, so
  its type is a parameter.\<close>

record 's GenerateSchemaResult =
  schema :: 's
  creditsRemaining :: int

text \<open>What the function can throw: the \<^verbatim>\<open>Error\<close> it builds itself, an error of
  the storage client that \<^verbatim>\<open>checkBalance\<close> let through, or whatever the adapter
  threw (a failed request as well as an answer that does not fit the schema it was
  given), handed on as it is.\<close>

datatype 'e thrown = Error string | PrismaError prisma_error | AdapterError 'e

text \<open>The table \<^verbatim>\<open>ProductState\<close> of the migrations, keyed by
  \<^verbatim>\<open>shopifyProductId\<close>; \<^verbatim>\<open>id\<close> and \<^verbatim>\<open>lastScannedAt\<close> are left out.\<close>

record ProductState =
  shop :: string
  contentHash :: string
  schemaBlob :: "string option"
  isSynced :: bool

text \<open>The calls that cross the boundary of the function, in the order they are made.\<close>

datatype call =
    CheckBalance string
  | GenerateObject string string
  | DeductCredit string int

text \<open>The state a run works on: the two tables, and the log of the calls made so
  far (the instrumentation of the test suite's mocks).\<close>

record world =
  shops :: shop_table
  productStates :: "string \<rightharpoonup> ProductState"
  calls :: "call list"

definition buildSystemPrompt :: "string \<Rightarrow> string" where
  "buildSystemPrompt voice =
     ''You are a JSON-LD Schema.org expert. Your task is to generate machine-readable product schemas that are optimized for:\<newline>'' @
     ''1. LLM search engines (ChatGPT, Perplexity)\<newline>'' @
     ''2. Google Rich Results\<newline>'' @
     ''3. Voice assistants\<newline>'' @
     ''\<newline>'' @
     ''BRAND VOICE GUIDELINES:\<newline>'' @
     voice @ ''\<newline>'' @
     ''\<newline>'' @
     ''RULES:\<newline>'' @
     ''- Output ONLY valid Schema.org Product JSON-LD\<newline>'' @
     ''- Use the brand voice to inform how you describe the product\<newline>'' @
     ''- Be factual and avoid hallucination - only use information provided\<newline>'' @
     ''- Keep descriptions concise but informative\<newline>'' @
     ''- Include all relevant product attributes''"

text \<open>\<^verbatim>\<open>product.sku ? ... : ''\<close> takes the second branch for a missing property and
  for the empty string.\<close>

definition buildUserPrompt :: "ProductInput \<Rightarrow> string" where
  "buildUserPrompt p =
     ''Generate a JSON-LD Product schema for this product:\<newline>'' @
     ''\<newline>'' @
     ''TITLE: '' @ title p @ ''\<newline>'' @
     ''DESCRIPTION: '' @ description p @ ''\<newline>'' @
     ''VENDOR/BRAND: '' @ vendor p @ ''\<newline>'' @
     (case sku p of
        None \<Rightarrow> []
      | Some s \<Rightarrow> if s = [] then [] else ''SKU: '' @ s) @ ''\<newline>'' @
     (case price p of
        None \<Rightarrow> []
      | Some s \<Rightarrow> if s = [] then [] else ''PRICE: '' @ s) @ ''\<newline>'' @
     ''\<newline>'' @
     ''Create a Schema.org Product JSON-LD that accurately represents this product.''"

text \<open>
  \<^verbatim>\<open>generateProductSchema\<close>. Its two collaborators outside the repository are
  parameters. \<open>generateObject\<close> is the adapter, called with the system prompt and the
  user prompt (the model name and the schema are constants of the call): \<open>Inr\<close> is the
  object it returned, \<open>Inl\<close> what it threw. The other requests of the application
  share the Shop table and run whenever this one waits: \<open>between\<close> is what they do to
  the table inside \<^verbatim>\<open>checkBalance\<close>, between its lookup and its insert, and
  \<open>meanwhile\<close> what they do while the adapter, the one outside service, is awaited; the
  debit is a single storage call. The identity for both is a run with no other request.
  The three \<^verbatim>\<open>await\<close>s run one after the other, each on the table the one before
  left.
\<close>

definition generateProductSchema ::
  "(string \<Rightarrow> string \<Rightarrow> 'e + 's) \<Rightarrow> (shop_table \<Rightarrow> shop_table) \<Rightarrow>
   (shop_table \<Rightarrow> shop_table) \<Rightarrow>
   GenerateSchemaInput \<Rightarrow> world \<Rightarrow> ('e thrown + 's GenerateSchemaResult) \<times> world" where
  "generateProductSchema generateObject between meanwhile input w =
     (case checkBalance between (shopId input) (shops w) of
        (checked, db1) \<Rightarrow>
          (let w1 = w\<lparr>shops := db1, calls := calls w @ [CheckBalance (shopId input)]\<rparr> in
           (case checked of
              Inl err \<Rightarrow> (Inl (PrismaError err), w1)
            | Inr bal \<Rightarrow>
                (if \<not> hasCredits bal then
                   (Inl (Error ''402 Payment Required: No credits available. Please purchase more credits.''), w1)
                 else
                   (let systemPrompt = buildSystemPrompt (brandVoice input);
                        userPrompt = buildUserPrompt (product input);
                        w2 = w1\<lparr>shops := meanwhile db1,
                                calls := calls w1 @ [GenerateObject systemPrompt userPrompt]\<rparr>
                    in (case generateObject systemPrompt userPrompt of
                          Inl err \<Rightarrow> (Inl (AdapterError err), w2)
                        | Inr object \<Rightarrow>
                            (case deductCredit (shopId input) 1 (shops w2) of
                               (deductResult, db3) \<Rightarrow>
                                 (Inr \<lparr>schema = object,
                                       creditsRemaining = newBalance deductResult\<rparr>,
                                  w2\<lparr>shops := db3,
                                     calls := calls w2 @ [DeductCredit (shopId input) 1]\<rparr>))))))))"


section \<open>Test data\<close>

text \<open>The product, the brand voice and the shop of the test suite of the AI service, a
  Shop table with one onboarded tenant, two stand-ins for the adapter (one returns an
  object, one throws), an environment that deletes the tenant's row, and a second call
  of \<^verbatim>\<open>checkBalance\<close> for the same new tenant whose insert comes first.\<close>

definition sampleProduct :: ProductInput where
  "sampleProduct =
     \<lparr>title = ''Handcrafted Leather Wallet'',
      description = ''Premium full-grain leather wallet with RFID blocking.'',
      vendor = ''Artisan Goods Co.'',
      price = None, sku = None\<rparr>"

definition sampleInput :: GenerateSchemaInput where
  "sampleInput =
     \<lparr>shopId = ''test-shop.myshopify.com'',
      product = sampleProduct,
      brandVoice = ''Professional, luxury-focused, emphasizing craftsmanship''\<rparr>"

definition shopWith :: "int \<Rightarrow> world" where
  "shopWith n =
     \<lparr>shops = [''test-shop.myshopify.com'' \<mapsto>
                \<lparr>credits = n, shop.brandVoice = None, isOnboarded = True\<rparr>],
      productStates = Map.empty,
      calls = []\<rparr>"

definition mockGenerates :: "string \<Rightarrow> string \<Rightarrow> string + string" where
  "mockGenerates system prompt = Inr ''mockSchema''"

definition mockRejects :: "string \<Rightarrow> string \<Rightarrow> string + string" where
  "mockRejects system prompt = Inl ''OpenAI API error''"

definition shopVanishes :: "shop_table \<Rightarrow> shop_table" where
  "shopVanishes db = db(''test-shop.myshopify.com'' := None)"

definition otherCallCreates :: "shop_table \<Rightarrow> shop_table" where
  "otherCallCreates db = snd (shop_create ''test-shop.myshopify.com'' db)"


text \<open>A world whose ProductState table holds, under the product's identity, the
  fingerprint of the sample product's current content and a stored artifact.\<close>

definition cachedWorld :: "string \<Rightarrow> world" where
  "cachedWorld shopifyProductId =
     \<lparr>shops = [''test-shop.myshopify.com'' \<mapsto>
                \<lparr>credits = 1, shop.brandVoice = None, isOnboarded = True\<rparr>],
      productStates = [shopifyProductId \<mapsto>
                \<lparr>shop = ''test-shop.myshopify.com'',
                 contentHash = generateProductHash sampleProduct,
                 schemaBlob = Some ''cachedSchema'',
                 isSynced = True\<rparr>],
      calls = []\<rparr>"


section \<open>Properties of the credit service\<close>

lemma deductCredit_present:
  "db tenant = Some row \<Longrightarrow>
   deductCredit tenant amount db =
     (\<lparr>success = True, newBalance = credits row - amount\<rparr>,
      db(tenant \<mapsto> row\<lparr>credits := credits row - amount\<rparr>))"
  by (simp add: deductCredit_def shop_update_decrement_def)

lemma deductCredit_absent:
  "db tenant = None \<Longrightarrow>
   deductCredit tenant amount db = (\<lparr>success = False, newBalance = 0\<rparr>, db)"
  by (simp add: deductCredit_def shop_update_decrement_def)

lemma checkBalance_absent:
  "db tenant = None \<Longrightarrow> between db tenant = None \<Longrightarrow>
   checkBalance between tenant db =
     (Inr \<lparr>hasCredits = True, balance = 10\<rparr>, (between db)(tenant \<mapsto> created_shop))"
  by (simp add: checkBalance_def shop_findUnique_def shop_create_def created_shop_def)

lemma checkBalance_raced:
  "db tenant = None \<Longrightarrow> between db tenant = Some row \<Longrightarrow>
   checkBalance between tenant db = (Inl UniqueConstraintFailed, between db)"
  by (simp add: checkBalance_def shop_findUnique_def shop_create_def)

lemma checkBalance_present:
  "db tenant = Some row \<Longrightarrow>
   checkBalance between tenant db =
     (Inr \<lparr>hasCredits = credits row > 0, balance = credits row\<rparr>, db)"
  by (simp add: checkBalance_def shop_findUnique_def)

lemma checkBalance_alone:
  "checkBalance (\<lambda>db. db) tenant db =
     (case db tenant of
        None \<Rightarrow> (Inr \<lparr>hasCredits = True, balance = 10\<rparr>, db(tenant \<mapsto> created_shop))
      | Some row \<Rightarrow> (Inr \<lparr>hasCredits = credits row > 0, balance = credits row\<rparr>, db))"
  by (cases "db tenant") (simp_all add: checkBalance_absent checkBalance_present)

lemma checkBalance_returned:
  assumes "fst (checkBalance between tenant db) = Inr r"
  shows "hasCredits r = (balance r > 0) \<and>
    map_option credits (snd (checkBalance between tenant db) tenant) = Some (balance r) \<and>
    fst (checkBalance (\<lambda>db. db) tenant db) = Inr r"
proof (cases "db tenant")
  case None
  show ?thesis
  proof (cases "between db tenant")
    case absent: None
    from assms show ?thesis
      by (auto simp: checkBalance_absent [where db = db and tenant = tenant and between = between, OF None absent] checkBalance_alone None created_shop_def)
  next
    case (Some row)
    from assms show ?thesis
      by (simp add: checkBalance_raced [where db = db and tenant = tenant and between = between, OF None Some])
  qed
next
  case (Some row)
  from assms show ?thesis
    by (auto simp: checkBalance_present [where db = db and tenant = tenant and between = between, OF Some] checkBalance_alone Some)
qed

lemma deductCredits_covered:
  "db tenant = Some row \<Longrightarrow> 0 \<le> credits row \<Longrightarrow> covered (credits row) amounts \<Longrightarrow>
   list_all (\<lambda>r. success r \<and> 0 \<le> newBalance r) (fst (deductCredits tenant amounts db)) \<and>
   map_option credits (snd (deductCredits tenant amounts db) tenant) =
     Some (credits row - sum_list amounts) \<and>
   0 \<le> credits row - sum_list amounts"
proof (induction amounts arbitrary: db row)
  case Nil
  then show ?case by simp
next
  case (Cons amount amounts)
  let ?row' = "row\<lparr>credits := credits row - amount\<rparr>"
  let ?db' = "db(tenant \<mapsto> ?row')"
  have step: "deductCredit tenant amount db =
      (\<lparr>success = True, newBalance = credits row - amount\<rparr>, ?db')"
    using Cons.prems(1) by (rule deductCredit_present [of db tenant row amount])
  have nonneg: "0 \<le> credits ?row'" and rest: "covered (credits ?row') amounts"
    using Cons.prems(3) by simp_all
  have "?db' tenant = Some ?row'" by simp
  then have "list_all (\<lambda>r. success r \<and> 0 \<le> newBalance r)
       (fst (deductCredits tenant amounts ?db')) \<and>
     map_option credits (snd (deductCredits tenant amounts ?db') tenant) =
       Some (credits ?row' - sum_list amounts) \<and>
     0 \<le> credits ?row' - sum_list amounts"
    using nonneg rest by (rule Cons.IH [of ?db' ?row'])
  with nonneg show ?case
    by (cases "deductCredits tenant amounts ?db'") (simp add: step algebra_simps)
qed


text \<open>
  C1, as amended. \<^verbatim>\<open>deductCredit\<close> has no floor: it fails only when the tenant
  has no row, and then the table is unchanged. On a row it always succeeds and stores
  the old balance minus the amount, so an amount above the balance is stored as a negative
  balance. A run of debits keeps every balance at or above zero when the balance starts
  there and each amount is at most the balance it meets.
\<close>

theorem deductCredit_balance_cases:
  "(\<forall>row. db tenant = Some row \<and> 0 \<le> credits row \<and> covered (credits row) amounts \<longrightarrow>
      list_all (\<lambda>r. success r \<and> 0 \<le> newBalance r) (fst (deductCredits tenant amounts db)) \<and>
      map_option credits (snd (deductCredits tenant amounts db) tenant) =
        Some (credits row - sum_list amounts) \<and>
      0 \<le> credits row - sum_list amounts) \<and>
   (\<forall>row. db tenant = Some row \<longrightarrow>
      success (fst (deductCredit tenant amount db)) \<and>
      newBalance (fst (deductCredit tenant amount db)) = credits row - amount \<and>
      map_option credits (snd (deductCredit tenant amount db) tenant) = Some (credits row - amount) \<and>
      (credits row < amount) = (newBalance (fst (deductCredit tenant amount db)) < 0)) \<and>
   (db tenant = None \<longrightarrow>
      deductCredit tenant amount db = (\<lparr>success = False, newBalance = 0\<rparr>, db))"
proof (intro conjI allI impI)
  fix row
  assume h: "db tenant = Some row \<and> 0 \<le> credits row \<and> covered (credits row) amounts"
  then have a: "db tenant = Some row" and b: "0 \<le> credits row"
    and c: "covered (credits row) amounts"
    by simp_all
  note r = deductCredits_covered [of db tenant row amounts, OF a b c]
  from r show "list_all (\<lambda>r. success r \<and> 0 \<le> newBalance r)
      (fst (deductCredits tenant amounts db))" by simp
  from r show "map_option credits (snd (deductCredits tenant amounts db) tenant) =
      Some (credits row - sum_list amounts)" by simp
  from r show "0 \<le> credits row - sum_list amounts" by simp
next
  fix row
  assume a: "db tenant = Some row"
  note r = deductCredit_present [of db tenant row amount, OF a]
  show "success (fst (deductCredit tenant amount db))" by (simp add: r)
  show "newBalance (fst (deductCredit tenant amount db)) = credits row - amount"
    by (simp add: r)
  show "map_option credits (snd (deductCredit tenant amount db) tenant) =
      Some (credits row - amount)" by (simp add: r)
  show "(credits row < amount) = (newBalance (fst (deductCredit tenant amount db)) < 0)"
    by (simp add: r)
next
  assume "db tenant = None"
  then show "deductCredit tenant amount db = (\<lparr>success = False, newBalance = 0\<rparr>, db)"
    by (rule deductCredit_absent)
qed

text \<open>A tenant with 5 credits debited 2, 3 and 0; the same tenant debited 7; a tenant
  with no row.\<close>

theorem deductCredit_balance_cases_witness:
  "fst (deductCredits ''t1'' [2, 3, 0]
      [''t1'' \<mapsto> \<lparr>credits = 5, shop.brandVoice = None, isOnboarded = True\<rparr>]) =
     [\<lparr>success = True, newBalance = 3\<rparr>, \<lparr>success = True, newBalance = 0\<rparr>,
      \<lparr>success = True, newBalance = 0\<rparr>] \<and>
   map_option credits (snd (deductCredits ''t1'' [2, 3, 0]
      [''t1'' \<mapsto> \<lparr>credits = 5, shop.brandVoice = None, isOnboarded = True\<rparr>]) ''t1'') = Some 0 \<and>
   newBalance (fst (deductCredit ''t1'' 7
      [''t1'' \<mapsto> \<lparr>credits = 5, shop.brandVoice = None, isOnboarded = True\<rparr>])) = - 2 \<and>
   deductCredit ''t1'' 7 Map.empty = (\<lparr>success = False, newBalance = 0\<rparr>, Map.empty)"
proof -
  let ?row = "\<lparr>credits = 5, shop.brandVoice = None, isOnboarded = True\<rparr>"
  let ?db = "[''t1'' \<mapsto> ?row]"
  have run: "?db ''t1'' = Some ?row \<and> 0 \<le> credits ?row \<and> covered (credits ?row) [2, 3, 0]"
    by simp
  have over: "?db ''t1'' = Some ?row"
    by simp
  have none: "(Map.empty :: shop_table) ''t1'' = None"
    by simp
  from deductCredit_balance_cases [of ?db "''t1''" "[2, 3, 0]" 7] run over
  have a: "map_option credits (snd (deductCredits ''t1'' [2, 3, 0] ?db) ''t1'') = Some 0"
    and b: "newBalance (fst (deductCredit ''t1'' 7 ?db)) = - 2"
    by auto
  from deductCredit_balance_cases [of Map.empty "''t1''" "[]" 7] none
  have c: "deductCredit ''t1'' 7 Map.empty = (\<lparr>success = False, newBalance = 0\<rparr>, Map.empty)"
    by simp
  have d: "fst (deductCredits ''t1'' [2, 3, 0] ?db) =
     [\<lparr>success = True, newBalance = 3\<rparr>, \<lparr>success = True, newBalance = 0\<rparr>,
      \<lparr>success = True, newBalance = 0\<rparr>]"
    by (simp add: deductCredit_def shop_update_decrement_def)
  from a b c d show ?thesis by simp
qed

text \<open>C1 as stated fails: a tenant with no credits is debited 1; the call succeeds and
  the stored balance is \<open>-1\<close>.\<close>

theorem deductCredit_overdraw_counterexample:
  "success (fst (deductCredit ''t1'' 1
      [''t1'' \<mapsto> \<lparr>credits = 0, shop.brandVoice = None, isOnboarded = True\<rparr>])) \<and>
   newBalance (fst (deductCredit ''t1'' 1
      [''t1'' \<mapsto> \<lparr>credits = 0, shop.brandVoice = None, isOnboarded = True\<rparr>])) = - 1 \<and>
   map_option credits (snd (deductCredit ''t1'' 1
      [''t1'' \<mapsto> \<lparr>credits = 0, shop.brandVoice = None, isOnboarded = True\<rparr>]) ''t1'') = Some (- 1)"
  by (simp add: deductCredit_def shop_update_decrement_def)


text \<open>
  With no other request between its two storage calls, \<^verbatim>\<open>checkBalance\<close> does not
  raise: it inserts the default row with the balance 10 for a tenant that has none and
  reports that balance, and it reports the balance of a row that is there and leaves the
  table as it is. Whenever it returns, \<^verbatim>\<open>hasCredits\<close> is \<open>balance > 0\<close>, and the
  balance is the one the table then holds.
\<close>

lemma checkBalance_provisions_alone:
  "(db tenant = None \<longrightarrow>
      checkBalance (\<lambda>db. db) tenant db =
        (Inr \<lparr>hasCredits = True, balance = 10\<rparr>, db(tenant \<mapsto> created_shop)) \<and>
      credits created_shop = 10) \<and>
   (\<forall>row. db tenant = Some row \<longrightarrow>
      checkBalance between tenant db =
        (Inr \<lparr>hasCredits = credits row > 0, balance = credits row\<rparr>, db)) \<and>
   (\<forall>r. fst (checkBalance between tenant db) = Inr r \<longrightarrow>
      hasCredits r = (balance r > 0) \<and>
      map_option credits (snd (checkBalance between tenant db) tenant) = Some (balance r))"
  by (auto simp: checkBalance_alone checkBalance_present created_shop_def
      dest: checkBalance_returned)

text \<open>
  C9 fails on the code when two requests meet. A tenant has no row, and two calls of
  \<^verbatim>\<open>checkBalance\<close> for it overlap: both lookups find nothing, the other call's insert
  comes first, and this call's insert breaks the unique index on the domain. The call
  raises that error; it has provisioned nothing and reports no balance, although the
  tenant had no row when it was called.
\<close>

theorem checkBalance_overlap_raises:
  "shop_findUnique ''test-shop.myshopify.com'' Map.empty = None \<and>
   checkBalance otherCallCreates ''test-shop.myshopify.com'' Map.empty =
     (Inl UniqueConstraintFailed, [''test-shop.myshopify.com'' \<mapsto> created_shop]) \<and>
   fst (generateProductSchema mockGenerates otherCallCreates (\<lambda>db. db) sampleInput
     \<lparr>shops = Map.empty, productStates = Map.empty, calls = []\<rparr>) =
     Inl (PrismaError UniqueConstraintFailed)"
  by (simp add: checkBalance_def shop_findUnique_def shop_create_def otherCallCreates_def
      generateProductSchema_def sampleInput_def)


text \<open>
  C10. \<^verbatim>\<open>deductCredit\<close> does not look at its amount: on a tenant that has a row,
  every integer amount, zero and negative ones too, gives \<^verbatim>\<open>success = true\<close> and the
  old balance minus the amount, which is also what the table then holds. The balance
  grows exactly when the amount is negative.
\<close>

theorem deductCredit_any_amount:
  "db tenant = Some row \<Longrightarrow>
   deductCredit tenant amount db =
     (\<lparr>success = True, newBalance = credits row - amount\<rparr>,
      db(tenant \<mapsto> row\<lparr>credits := credits row - amount\<rparr>)) \<and>
   (amount < 0) = (credits row < newBalance (fst (deductCredit tenant amount db))) \<and>
   (amount = 0) = (credits row = newBalance (fst (deductCredit tenant amount db)))"
  by (simp add: deductCredit_present)

text \<open>A tenant with 3 credits debited \<open>-5\<close> ends with 8.\<close>

theorem deductCredit_any_amount_witness:
  "deductCredit ''t1'' (- 5) [''t1'' \<mapsto> \<lparr>credits = 3, shop.brandVoice = None, isOnboarded = True\<rparr>] =
     (\<lparr>success = True, newBalance = 8\<rparr>,
      [''t1'' \<mapsto> \<lparr>credits = 8, shop.brandVoice = None, isOnboarded = True\<rparr>]) \<and>
   deductCredit ''t1'' 0 [''t1'' \<mapsto> \<lparr>credits = 3, shop.brandVoice = None, isOnboarded = True\<rparr>] =
     (\<lparr>success = True, newBalance = 3\<rparr>,
      [''t1'' \<mapsto> \<lparr>credits = 3, shop.brandVoice = None, isOnboarded = True\<rparr>])"
proof -
  let ?row = "\<lparr>credits = 3, shop.brandVoice = None, isOnboarded = True\<rparr>"
  have some: "[''t1'' \<mapsto> ?row] ''t1'' = Some ?row" by simp
  from deductCredit_any_amount [of "[''t1'' \<mapsto> ?row]" "''t1''" ?row "- 5", OF some]
    deductCredit_any_amount [of "[''t1'' \<mapsto> ?row]" "''t1''" ?row 0, OF some]
  show ?thesis by simp
qed


section \<open>Properties of the AI service\<close>

lemma generateProductSchema_check_raised:
  "checkBalance between (shopId input) (shops w) = (Inl err, db1) \<Longrightarrow>
   generateProductSchema generateObject between meanwhile input w =
     (Inl (PrismaError err),
      w\<lparr>shops := db1, calls := calls w @ [CheckBalance (shopId input)]\<rparr>)"
  by (simp add: generateProductSchema_def)

lemma generateProductSchema_quota:
  "checkBalance between (shopId input) (shops w) = (Inr b, db1) \<Longrightarrow> \<not> hasCredits b \<Longrightarrow>
   generateProductSchema generateObject between meanwhile input w =
     (Inl (Error ''402 Payment Required: No credits available. Please purchase more credits.''),
      w\<lparr>shops := db1, calls := calls w @ [CheckBalance (shopId input)]\<rparr>)"
  by (simp add: generateProductSchema_def)

lemma generateProductSchema_adapter_failed:
  "checkBalance between (shopId input) (shops w) = (Inr b, db1) \<Longrightarrow> hasCredits b \<Longrightarrow>
   generateObject (buildSystemPrompt (brandVoice input)) (buildUserPrompt (product input)) = Inl err \<Longrightarrow>
   generateProductSchema generateObject between meanwhile input w =
     (Inl (AdapterError err),
      w\<lparr>shops := meanwhile db1,
        calls := calls w @ [CheckBalance (shopId input),
          GenerateObject (buildSystemPrompt (brandVoice input)) (buildUserPrompt (product input))]\<rparr>)"
  by (simp add: generateProductSchema_def Let_def)

lemma generateProductSchema_generated:
  "checkBalance between (shopId input) (shops w) = (Inr b, db1) \<Longrightarrow> hasCredits b \<Longrightarrow>
   generateObject (buildSystemPrompt (brandVoice input)) (buildUserPrompt (product input)) = Inr object \<Longrightarrow>
   generateProductSchema generateObject between meanwhile input w =
     (Inr \<lparr>schema = object,
           creditsRemaining = newBalance (fst (deductCredit (shopId input) 1 (meanwhile db1)))\<rparr>,
      w\<lparr>shops := snd (deductCredit (shopId input) 1 (meanwhile db1)),
        calls := calls w @ [CheckBalance (shopId input),
          GenerateObject (buildSystemPrompt (brandVoice input)) (buildUserPrompt (product input)),
          DeductCredit (shopId input) 1]\<rparr>)"
  by (simp add: generateProductSchema_def Let_def split: prod.splits)

text \<open>
  C2. The calls a run makes are a non-empty beginning of the sequence
  \<^verbatim>\<open>checkBalance(shopId)\<close>, \<^verbatim>\<open>generateObject(...)\<close>, \<^verbatim>\<open>deductCredit(shopId, 1)\<close>,
  appended to the log in that order. So the balance check has returned before the
  adapter is called, and the debit is made after the adapter has returned, on the table
  as it is then. The adapter is called exactly when the check reported credits, and the
  debit is made exactly when, moreover, the adapter returned an object.
\<close>

theorem generateProductSchema_call_order:
  "\<exists>made. calls (snd (generateProductSchema generateObject between meanwhile input w)) = calls w @ made \<and>
     made \<noteq> [] \<and>
     prefix made
       [CheckBalance (shopId input),
        GenerateObject (buildSystemPrompt (brandVoice input)) (buildUserPrompt (product input)),
        DeductCredit (shopId input) 1] \<and>
     (GenerateObject (buildSystemPrompt (brandVoice input)) (buildUserPrompt (product input))
        \<in> set made) =
       (\<exists>b. fst (checkBalance between (shopId input) (shops w)) = Inr b \<and> hasCredits b) \<and>
     (DeductCredit (shopId input) 1 \<in> set made) =
       (\<exists>b object. fst (checkBalance between (shopId input) (shops w)) = Inr b \<and> hasCredits b \<and>
          generateObject (buildSystemPrompt (brandVoice input)) (buildUserPrompt (product input)) =
            Inr object)"
proof -
  let ?sys = "buildSystemPrompt (brandVoice input)"
  let ?usr = "buildUserPrompt (product input)"
  obtain checked db1 where ch: "checkBalance between (shopId input) (shops w) = (checked, db1)"
    by (cases "checkBalance between (shopId input) (shops w)")
  show ?thesis
  proof (cases checked)
    case (Inl err)
    with ch have cb: "checkBalance between (shopId input) (shops w) = (Inl err, db1)"
      by simp
    note run = generateProductSchema_check_raised
      [where generateObject = generateObject and meanwhile = meanwhile, OF cb]
    show ?thesis
      by (rule exI [of _ "[CheckBalance (shopId input)]"]) (simp add: run cb)
  next
    case (Inr b)
    with ch have cb: "checkBalance between (shopId input) (shops w) = (Inr b, db1)"
      by simp
    show ?thesis
    proof (cases "hasCredits b")
    case False
    note run = generateProductSchema_quota [where generateObject = generateObject and between = between and meanwhile = meanwhile, OF cb False]
    show ?thesis
      by (rule exI [of _ "[CheckBalance (shopId input)]"]) (simp add: run cb False)
  next
    case True
    show ?thesis
    proof (cases "generateObject ?sys ?usr")
      case (Inl err)
      note run = generateProductSchema_adapter_failed [where generateObject = generateObject and between = between and meanwhile = meanwhile, OF cb True Inl]
      show ?thesis
        by (rule exI [of _ "[CheckBalance (shopId input), GenerateObject ?sys ?usr]"])
          (simp add: run cb True Inl)
    next
      case (Inr object)
      note run = generateProductSchema_generated [where generateObject = generateObject and between = between and meanwhile = meanwhile, OF cb True Inr]
      show ?thesis
        by (rule exI [of _ "[CheckBalance (shopId input), GenerateObject ?sys ?usr,
              DeductCredit (shopId input) 1]"])
          (simp add: run cb True Inr)
    qed
  qed
  qed
qed

lemma getBalance_after_checkBalance:
  "fst (getBalance (\<lambda>db. db) tenant (snd (checkBalance (\<lambda>db. db) tenant db))) =
   fst (getBalance (\<lambda>db. db) tenant db)"
  by (cases "db tenant") (simp_all add: getBalance_def checkBalance_alone created_shop_def)

lemma deductCredit_failed:
  "\<not> success (fst (deductCredit tenant amount db)) \<Longrightarrow>
   deductCredit tenant amount db = (\<lparr>success = False, newBalance = 0\<rparr>, db)"
  by (cases "db tenant") (simp_all add: deductCredit_absent deductCredit_present)

text \<open>
  C3. When the tenant is admitted and the adapter throws, the function throws the
  adapter's error, the log ends with the adapter's call and holds no new debit, and the
  function has written nothing to the Shop table after the admission: the table is what
  the other requests made of it in the meantime. With no other request, the balance
  \<^verbatim>\<open>getBalance\<close> reads after the attempt is the balance it reads before, and with
  none during the adapter's call the Shop table of a tenant that had a row is the table
  as it was.
\<close>

theorem generateProductSchema_failure_no_debit:
  assumes "fst (checkBalance between (shopId input) (shops w)) = Inr b" and "hasCredits b"
    and "generateObject (buildSystemPrompt (brandVoice input)) (buildUserPrompt (product input)) =
      Inl err"
  shows "fst (generateProductSchema generateObject between meanwhile input w) = Inl (AdapterError err) \<and>
    calls (snd (generateProductSchema generateObject between meanwhile input w)) =
      calls w @ [CheckBalance (shopId input),
        GenerateObject (buildSystemPrompt (brandVoice input)) (buildUserPrompt (product input))] \<and>
    (\<forall>tenant amount. DeductCredit tenant amount \<notin>
       set (drop (length (calls w))
         (calls (snd (generateProductSchema generateObject between meanwhile input w))))) \<and>
    shops (snd (generateProductSchema generateObject between meanwhile input w)) =
      meanwhile (snd (checkBalance between (shopId input) (shops w))) \<and>
    fst (getBalance (\<lambda>db. db) (shopId input)
      (shops (snd (generateProductSchema generateObject (\<lambda>db. db) (\<lambda>db. db) input w)))) =
      fst (getBalance (\<lambda>db. db) (shopId input) (shops w)) \<and>
    (shops w (shopId input) \<noteq> None \<longrightarrow>
      shops (snd (generateProductSchema generateObject between (\<lambda>db. db) input w)) = shops w)"
proof -
  obtain db1 where cb: "checkBalance between (shopId input) (shops w) = (Inr b, db1)"
    using assms(1) by (cases "checkBalance between (shopId input) (shops w)") simp
  note run = generateProductSchema_adapter_failed
    [where generateObject = generateObject and between = between, OF cb assms(2) assms(3)]
  have "fst (checkBalance (\<lambda>db. db) (shopId input) (shops w)) = Inr b"
    using checkBalance_returned [OF assms(1)] by simp
  then obtain db0 where cb0: "checkBalance (\<lambda>db. db) (shopId input) (shops w) = (Inr b, db0)"
    by (cases "checkBalance (\<lambda>db. db) (shopId input) (shops w)") simp
  note alone = generateProductSchema_adapter_failed
    [where generateObject = generateObject and between = "\<lambda>db. db" and meanwhile = "\<lambda>db. db",
      OF cb0 assms(2) assms(3)]
  have same: "fst (getBalance (\<lambda>db. db) (shopId input) db0) =
      fst (getBalance (\<lambda>db. db) (shopId input) (shops w))"
    using getBalance_after_checkBalance [of "shopId input" "shops w"] by (simp add: cb0)
  have kept: "db1 = shops w" if "shops w (shopId input) \<noteq> None"
  proof -
    from that obtain row where "shops w (shopId input) = Some row"
      by blast
    then have "snd (checkBalance between (shopId input) (shops w)) = shops w"
      by (simp add: checkBalance_present)
    then show ?thesis
      by (simp add: cb)
  qed
  show ?thesis
    using same kept by (simp add: run alone cb)
qed

text \<open>A tenant with 5 credits and an adapter that throws.\<close>

theorem generateProductSchema_failure_no_debit_witness:
  "fst (generateProductSchema mockRejects (\<lambda>db. db) (\<lambda>db. db) sampleInput (shopWith 5)) =
     Inl (AdapterError ''OpenAI API error'') \<and>
   calls (snd (generateProductSchema mockRejects (\<lambda>db. db) (\<lambda>db. db) sampleInput (shopWith 5))) =
     [CheckBalance ''test-shop.myshopify.com'',
      GenerateObject (buildSystemPrompt (brandVoice sampleInput))
        (buildUserPrompt (product sampleInput))] \<and>
   fst (getBalance (\<lambda>db. db) ''test-shop.myshopify.com''
     (shops (snd (generateProductSchema mockRejects (\<lambda>db. db) (\<lambda>db. db) sampleInput (shopWith 5))))) =
     Inr 5 \<and>
   shops (snd (generateProductSchema mockRejects (\<lambda>db. db) (\<lambda>db. db) sampleInput (shopWith 5))) =
     shops (shopWith 5)"
proof -
  have row: "shops (shopWith 5) ''test-shop.myshopify.com'' \<noteq> None"
    by (simp add: shopWith_def)
  have cb: "fst (checkBalance (\<lambda>db. db) (shopId sampleInput) (shops (shopWith 5))) =
      Inr \<lparr>hasCredits = True, balance = 5\<rparr>"
    by (simp add: sampleInput_def shopWith_def checkBalance_def shop_findUnique_def)
  have adm: "hasCredits \<lparr>hasCredits = True, balance = 5\<rparr>"
    by simp
  have fail: "mockRejects (buildSystemPrompt (brandVoice sampleInput))
      (buildUserPrompt (product sampleInput)) = Inl ''OpenAI API error''"
    by (simp add: mockRejects_def)
  have before: "fst (getBalance (\<lambda>db. db) (shopId sampleInput) (shops (shopWith 5))) = Inr 5"
    by (simp add: sampleInput_def shopWith_def getBalance_def checkBalance_def
        shop_findUnique_def)
  have sid: "shopId sampleInput = ''test-shop.myshopify.com''"
    by (simp add: sampleInput_def)
  have log: "calls (shopWith 5) = []"
    by (simp add: shopWith_def)
  note run = generateProductSchema_failure_no_debit
    [where generateObject = mockRejects and between = "\<lambda>db. db" and meanwhile = "\<lambda>db. db", OF cb adm fail]
  from run have r1: "fst (generateProductSchema mockRejects (\<lambda>db. db) (\<lambda>db. db) sampleInput (shopWith 5)) =
      Inl (AdapterError ''OpenAI API error'')"
    by simp
  from run have r2: "calls (snd (generateProductSchema mockRejects (\<lambda>db. db) (\<lambda>db. db) sampleInput
      (shopWith 5))) =
     [CheckBalance ''test-shop.myshopify.com'',
      GenerateObject (buildSystemPrompt (brandVoice sampleInput))
        (buildUserPrompt (product sampleInput))]"
    by (simp add: sid log)
  from run have r3: "fst (getBalance (\<lambda>db. db) ''test-shop.myshopify.com''
      (shops (snd (generateProductSchema mockRejects (\<lambda>db. db) (\<lambda>db. db) sampleInput (shopWith 5))))) =
      Inr 5"
    by (simp add: sid before [unfolded sid]
        getBalance_after_checkBalance [of "''test-shop.myshopify.com''"])
  from run row have r4: "shops (snd (generateProductSchema mockRejects (\<lambda>db. db) (\<lambda>db. db) sampleInput
      (shopWith 5))) = shops (shopWith 5)"
    unfolding sid by blast
  from r1 r2 r3 r4 show ?thesis
    by (intro conjI)
qed

text \<open>
  C4. When \<^verbatim>\<open>checkBalance\<close> reports no credits, the function throws the
  \<^verbatim>\<open>Error\<close> whose message starts with 402; the only call of the run is the balance
  check, so neither the adapter nor \<^verbatim>\<open>deductCredit\<close> is called, and the Shop table
  is as the balance check left it.
\<close>

theorem generateProductSchema_quota_exhausted:
  assumes "fst (checkBalance between (shopId input) (shops w)) = Inr b" and "\<not> hasCredits b"
  shows "fst (generateProductSchema generateObject between meanwhile input w) =
      Inl (Error ''402 Payment Required: No credits available. Please purchase more credits.'') \<and>
    prefix ''402''
      ''402 Payment Required: No credits available. Please purchase more credits.'' \<and>
    calls (snd (generateProductSchema generateObject between meanwhile input w)) =
      calls w @ [CheckBalance (shopId input)] \<and>
    shops (snd (generateProductSchema generateObject between meanwhile input w)) =
      snd (checkBalance between (shopId input) (shops w))"
proof -
  obtain db1 where cb: "checkBalance between (shopId input) (shops w) = (Inr b, db1)"
    using assms(1) by (cases "checkBalance between (shopId input) (shops w)") simp
  note run = generateProductSchema_quota
    [where generateObject = generateObject and between = between and meanwhile = meanwhile, OF cb assms(2)]
  show ?thesis
    by (simp add: run cb)
qed

text \<open>A tenant with no credits.\<close>

theorem generateProductSchema_quota_exhausted_witness:
  "fst (generateProductSchema mockGenerates (\<lambda>db. db) (\<lambda>db. db) sampleInput (shopWith 0)) =
     Inl (Error ''402 Payment Required: No credits available. Please purchase more credits.'') \<and>
   calls (snd (generateProductSchema mockGenerates (\<lambda>db. db) (\<lambda>db. db) sampleInput (shopWith 0))) =
     [CheckBalance ''test-shop.myshopify.com''] \<and>
   shops (snd (generateProductSchema mockGenerates (\<lambda>db. db) (\<lambda>db. db) sampleInput (shopWith 0))) =
     shops (shopWith 0)"
proof -
  have cb: "checkBalance (\<lambda>db. db) (shopId sampleInput) (shops (shopWith 0)) =
      (Inr \<lparr>hasCredits = False, balance = 0\<rparr>, shops (shopWith 0))"
    by (simp add: sampleInput_def shopWith_def checkBalance_def shop_findUnique_def)
  then have cb1: "fst (checkBalance (\<lambda>db. db) (shopId sampleInput) (shops (shopWith 0))) =
      Inr \<lparr>hasCredits = False, balance = 0\<rparr>"
    by simp
  have no: "\<not> hasCredits \<lparr>hasCredits = False, balance = 0\<rparr>"
    by simp
  have sid: "shopId sampleInput = ''test-shop.myshopify.com''"
    by (simp add: sampleInput_def)
  have log: "calls (shopWith 0) = []"
    by (simp add: shopWith_def)
  from generateProductSchema_quota_exhausted
    [where generateObject = mockGenerates and between = "\<lambda>db. db" and meanwhile = "\<lambda>db. db", OF cb1 no]
  show ?thesis
    by (simp add: cb [unfolded sid] sid log)
qed

text \<open>
  C6, as amended. The function never reads \<^verbatim>\<open>deductResult.success\<close>. When the
  adapter has returned an object and the debit then reports failure, the function
  returns the ordinary result, with the object and \<^verbatim>\<open>creditsRemaining = 0\<close>, and the
  Shop table is not debited.
\<close>

theorem generateProductSchema_debit_failure_swallowed:
  assumes "fst (checkBalance between (shopId input) (shops w)) = Inr b" and "hasCredits b"
    and "generateObject (buildSystemPrompt (brandVoice input)) (buildUserPrompt (product input)) =
      Inr object"
    and "\<not> success (fst (deductCredit (shopId input) 1
      (meanwhile (snd (checkBalance between (shopId input) (shops w))))))"
  shows "fst (generateProductSchema generateObject between meanwhile input w) =
      Inr \<lparr>schema = object, creditsRemaining = 0\<rparr> \<and>
    shops (snd (generateProductSchema generateObject between meanwhile input w)) =
      meanwhile (snd (checkBalance between (shopId input) (shops w))) \<and>
    calls (snd (generateProductSchema generateObject between meanwhile input w)) =
      calls w @ [CheckBalance (shopId input),
        GenerateObject (buildSystemPrompt (brandVoice input)) (buildUserPrompt (product input)),
        DeductCredit (shopId input) 1]"
proof -
  obtain db1 where cb: "checkBalance between (shopId input) (shops w) = (Inr b, db1)"
    using assms(1) by (cases "checkBalance between (shopId input) (shops w)") simp
  note run = generateProductSchema_generated
    [where generateObject = generateObject and between = between and meanwhile = meanwhile, OF cb assms(2) assms(3)]
  have "deductCredit (shopId input) 1 (meanwhile db1) =
      (\<lparr>success = False, newBalance = 0\<rparr>, meanwhile db1)"
    using assms(4) by (simp add: cb deductCredit_failed)
  then show ?thesis
    by (simp add: run cb)
qed

text \<open>A tenant with 5 credits whose row is deleted while the adapter is awaited.\<close>

theorem generateProductSchema_debit_failure_swallowed_witness:
  "fst (generateProductSchema mockGenerates (\<lambda>db. db) shopVanishes sampleInput (shopWith 5)) =
     Inr \<lparr>schema = ''mockSchema'', creditsRemaining = 0\<rparr> \<and>
   shops (snd (generateProductSchema mockGenerates (\<lambda>db. db) shopVanishes sampleInput (shopWith 5))) =
     Map.empty"
proof -
  have cb: "checkBalance (\<lambda>db. db) (shopId sampleInput) (shops (shopWith 5)) =
      (Inr \<lparr>hasCredits = True, balance = 5\<rparr>, shops (shopWith 5))"
    by (simp add: sampleInput_def shopWith_def checkBalance_def shop_findUnique_def)
  then have cb1: "fst (checkBalance (\<lambda>db. db) (shopId sampleInput) (shops (shopWith 5))) =
      Inr \<lparr>hasCredits = True, balance = 5\<rparr>"
    by simp
  have adm: "hasCredits \<lparr>hasCredits = True, balance = 5\<rparr>"
    by simp
  have gen: "mockGenerates (buildSystemPrompt (brandVoice sampleInput))
      (buildUserPrompt (product sampleInput)) = Inr ''mockSchema''"
    by (simp add: mockGenerates_def)
  have gone: "shopVanishes (shops (shopWith 5)) = Map.empty"
    by (simp add: shopVanishes_def shopWith_def)
  have failed: "\<not> success (fst (deductCredit (shopId sampleInput) 1
      (shopVanishes (snd (checkBalance (\<lambda>db. db) (shopId sampleInput) (shops (shopWith 5)))))))"
    by (simp add: cb gone deductCredit_absent)
  from generateProductSchema_debit_failure_swallowed
    [where generateObject = mockGenerates and between = "\<lambda>db. db" and meanwhile = shopVanishes, OF cb1 adm gen failed]
  show ?thesis
    by (simp add: cb gone)
qed


text \<open>C6 as stated fails on that run: the debit reports failure, and the caller gets
  an ordinary result.\<close>

theorem generateProductSchema_debit_failure_counterexample:
  "fst (generateProductSchema mockGenerates (\<lambda>db. db) shopVanishes sampleInput (shopWith 5)) =
     Inr \<lparr>schema = ''mockSchema'', creditsRemaining = 0\<rparr> \<and>
   fst (deductCredit (shopId sampleInput) 1
     (shopVanishes (snd (checkBalance (\<lambda>db. db) (shopId sampleInput) (shops (shopWith 5)))))) =
     \<lparr>success = False, newBalance = 0\<rparr> \<and>
   calls (snd (generateProductSchema mockGenerates (\<lambda>db. db) shopVanishes sampleInput (shopWith 5))) =
     [CheckBalance ''test-shop.myshopify.com'',
      GenerateObject (buildSystemPrompt (brandVoice sampleInput))
        (buildUserPrompt (product sampleInput)),
      DeductCredit ''test-shop.myshopify.com'' 1]"
  by (simp add: generateProductSchema_def Let_def sampleInput_def shopWith_def
      mockGenerates_def shopVanishes_def checkBalance_def shop_findUnique_def
      deductCredit_def shop_update_decrement_def)

text \<open>
  C5 fails on the code. The ProductState table holds, under the product's identity
  (whatever it is), the fingerprint of the sample product's current content and a stored
  artifact, and the tenant has one credit. Processing the product, for which the code has
  \<^verbatim>\<open>generateProductSchema\<close> alone, calls the ledger twice and the adapter once,
  returns the adapter's new object and not the stored one, and spends the tenant's
  credit: the function takes no product identity and never reads the table.
\<close>

theorem generateProductSchema_no_short_circuit:
  "map_option contentHash (productStates (cachedWorld shopifyProductId) shopifyProductId) =
     Some (generateProductHash (product sampleInput)) \<and>
   map_option schemaBlob (productStates (cachedWorld shopifyProductId) shopifyProductId) =
     Some (Some ''cachedSchema'') \<and>
   fst (generateProductSchema mockGenerates (\<lambda>db. db) (\<lambda>db. db) sampleInput
     (cachedWorld shopifyProductId)) =
     Inr \<lparr>schema = ''mockSchema'', creditsRemaining = 0\<rparr> \<and>
   calls (snd (generateProductSchema mockGenerates (\<lambda>db. db) (\<lambda>db. db) sampleInput
     (cachedWorld shopifyProductId))) =
     [CheckBalance ''test-shop.myshopify.com'',
      GenerateObject (buildSystemPrompt (brandVoice sampleInput))
        (buildUserPrompt (product sampleInput)),
      DeductCredit ''test-shop.myshopify.com'' 1] \<and>
   map_option credits
     (shops (snd (generateProductSchema mockGenerates (\<lambda>db. db) (\<lambda>db. db) sampleInput
        (cachedWorld shopifyProductId)))
        ''test-shop.myshopify.com'') = Some 0 \<and>
   productStates (snd (generateProductSchema mockGenerates (\<lambda>db. db) (\<lambda>db. db) sampleInput
     (cachedWorld shopifyProductId))) = productStates (cachedWorld shopifyProductId)"
  by (simp add: generateProductSchema_def Let_def sampleInput_def cachedWorld_def
      mockGenerates_def checkBalance_def shop_findUnique_def
      deductCredit_def shop_update_decrement_def)

text \<open>The floor of the balance is the admission check: with no other request at work, a
  run leaves the tenant with a row whose balance is not negative, provided the balance
  was not negative before.\<close>

lemma generateProductSchema_keeps_balance_nonneg:
  assumes "\<And>row. shops w (shopId input) = Some row \<Longrightarrow> 0 \<le> credits row"
  shows "\<exists>row'. shops (snd (generateProductSchema generateObject (\<lambda>db. db) (\<lambda>db. db) input w))
      (shopId input) = Some row' \<and> 0 \<le> credits row'"
proof (cases "shops w (shopId input)")
  case None
  then have cb: "checkBalance (\<lambda>db. db) (shopId input) (shops w) =
      (Inr \<lparr>hasCredits = True, balance = 10\<rparr>, (shops w)(shopId input \<mapsto> created_shop))"
    by (simp add: checkBalance_alone)
  show ?thesis
    by (simp add: generateProductSchema_def cb Let_def deductCredit_def shop_update_decrement_def
        created_shop_def split: sum.splits)
next
  case (Some row)
  then have cb: "checkBalance (\<lambda>db. db) (shopId input) (shops w) =
      (Inr \<lparr>hasCredits = credits row > 0, balance = credits row\<rparr>, shops w)"
    by (simp add: checkBalance_alone)
  from assms Some have "0 \<le> credits row" by simp
  then show ?thesis
    by (simp add: generateProductSchema_def cb Let_def deductCredit_def shop_update_decrement_def
        Some split: sum.splits)
qed


section \<open>Properties of the hashing utility\<close>

text \<open>The padded message is a whole number of 64-byte blocks, and each block is sixteen
  words: the message schedule reads only words that are there.\<close>

lemma length_pad: "length (pad m) = length m + (119 - length m mod 64) mod 64 + 9"
  by (simp add: pad_def)

lemma chunks_whole:
  "64 * n \<le> length bs \<Longrightarrow> list_all (\<lambda>block. length block = 64) (chunks n bs)"
  by (induction n arbitrary: bs) simp_all

lemma length_be_words: "length (be_words bs) = length bs div 4"
  by (induction bs rule: be_words.induct) simp_all

lemma pad_whole_blocks: "length (pad m) mod 64 = 0"
proof -
  define q r where "q = length m div 64" and "r = length m mod 64"
  have m: "length m = 64 * q + r" and r: "r < 64"
    by (simp_all add: q_def r_def)
  have "(119 - r) mod 64 = (if r \<le> 55 then 55 - r else 119 - r)"
  proof (cases "r \<le> 55")
    case True
    then have "119 - r = 64 + (55 - r)" by simp
    then have "(119 - r) mod 64 = (55 - r) mod 64" by (simp only: mod_add_self1)
    with True show ?thesis by simp
  next
    case False
    with r show ?thesis by simp
  qed
  then have "length (pad m) = (if r \<le> 55 then 64 * (q + 1) else 64 * (q + 2))"
    using r by (simp add: length_pad m r_def [symmetric])
  then show ?thesis
    by simp
qed

lemma sha256_blocks:
  "list_all (\<lambda>block. length (be_words block) = 16) (chunks (length (pad m) div 64) (pad m))"
proof -
  have "64 * (length (pad m) div 64) \<le> length (pad m)"
    by simp
  then have "list_all (\<lambda>block. length block = 64) (chunks (length (pad m) div 64) (pad m))"
    by (rule chunks_whole)
  then show ?thesis
    by (rule list.pred_mono_strong) (simp add: length_be_words)
qed

text \<open>The digest is 32 bytes, printed as 64 lowercase hexadecimal digits.\<close>

lemma length_digest: "length (digest st) = 32"
proof -
  obtain a b c d e f g h where "st = (a, b, c, d, e, f, g, h)"
    by (cases st) auto
  then show ?thesis
    by (simp add: be_bytes_def)
qed

lemma length_hex_bytes: "length (concat (map hex_byte bs)) = 2 * length bs"
  by (induction bs) (simp_all add: hex_byte_def)

lemma hexdigit_lowercase: "hexdigit n \<in> set ''0123456789abcdef''"
  unfolding hexdigit_def by (rule nth_mem) simp

lemma set_hex_bytes: "set (concat (map hex_byte bs)) \<subseteq> set ''0123456789abcdef''"
proof (induction bs)
  case Nil
  then show ?case by simp
next
  case (Cons b bs)
  have "set (hex_byte b) \<subseteq> set ''0123456789abcdef''"
    using hexdigit_lowercase [of "unat (drop_bit 4 b)"] hexdigit_lowercase [of "unat (b AND 15)"]
    unfolding hex_byte_def by simp
  with Cons.IH show ?case
    by simp
qed

lemma length_sha256_hex: "length (sha256_hex s) = 64"
  by (simp add: sha256_hex_def length_hex_bytes length_digest)

lemma sha256_hex_lowercase: "set (sha256_hex s) \<subseteq> set ''0123456789abcdef''"
  unfolding sha256_hex_def by (rule set_hex_bytes)

lemma generateProductHash_canonical:
  "generateProductHash p =
     sha256_hex
       (''{'' @ [CHR 0x22] @ ''description'' @ [CHR 0x22] @ '':'' @ QuoteJSONString (description p) @
        '','' @ [CHR 0x22] @ ''title'' @ [CHR 0x22] @ '':'' @ QuoteJSONString (title p) @
        '','' @ [CHR 0x22] @ ''vendor'' @ [CHR 0x22] @ '':'' @ QuoteJSONString (vendor p) @ ''}'')"
  by (simp add: generateProductHash_def JSON_stringify_def QuoteJSONString_def QuoteJSONChar_def)

text \<open>
  C7. \<^verbatim>\<open>generateProductHash\<close> returns the SHA-256 digest, in hexadecimal, of the
  string \<^verbatim>\<open>{"description":D,"title":T,"vendor":V}\<close>, where \<open>D\<close>, \<open>T\<close> and \<open>V\<close> are
  the three properties as JSON strings: these three keys, in this order, and nothing
  else. The result has 64 characters, all of them lowercase hexadecimal digits. Two
  products with the same three values (empty strings too) have the same digest.
\<close>

theorem generateProductHash_digest:
  "generateProductHash p =
     sha256_hex
       (''{'' @ [CHR 0x22] @ ''description'' @ [CHR 0x22] @ '':'' @ QuoteJSONString (description p) @
        '','' @ [CHR 0x22] @ ''title'' @ [CHR 0x22] @ '':'' @ QuoteJSONString (title p) @
        '','' @ [CHR 0x22] @ ''vendor'' @ [CHR 0x22] @ '':'' @ QuoteJSONString (vendor p) @ ''}'') \<and>
   length (generateProductHash p) = 64 \<and>
   set (generateProductHash p) \<subseteq> set ''0123456789abcdef'' \<and>
   (description q = description p \<and> title q = title p \<and> vendor q = vendor p \<longrightarrow>
      generateProductHash q = generateProductHash p)"
proof (intro conjI impI)
  show "generateProductHash p =
     sha256_hex
       (''{'' @ [CHR 0x22] @ ''description'' @ [CHR 0x22] @ '':'' @ QuoteJSONString (description p) @
        '','' @ [CHR 0x22] @ ''title'' @ [CHR 0x22] @ '':'' @ QuoteJSONString (title p) @
        '','' @ [CHR 0x22] @ ''vendor'' @ [CHR 0x22] @ '':'' @ QuoteJSONString (vendor p) @ ''}'')"
    by (rule generateProductHash_canonical)
  show "length (generateProductHash p) = 64"
    by (simp add: generateProductHash_def length_sha256_hex)
  show "set (generateProductHash p) \<subseteq> set ''0123456789abcdef''"
    unfolding generateProductHash_def Let_def by (rule sha256_hex_lowercase)
  assume "description q = description p \<and> title q = title p \<and> vendor q = vendor p"
  then show "generateProductHash q = generateProductHash p"
    by (simp add: generateProductHash_def)
qed

text \<open>The model of SHA-256 computes the digest of the standard test message.\<close>

lemma sha256_hex_abc:
  "sha256_hex ''abc'' = ''ba7816bf8f01cfea414140de5dae2223b00361a396177a9cb410ff61f20015ad''"
  by code_simp

text \<open>A product whose title ends with a double quote and whose description ends with
  a line feed, the same product with a price, and the product of three empty strings.\<close>

theorem generateProductHash_digest_witness:
  "generateProductHash \<lparr>title = [CHR ''a'', CHR 0x22], description = ''b\<newline>'', vendor = ''c''\<rparr> =
     ''946ccb7522ff404c9218b3e8982c4c3f73ae1f3b8e4d346304390d11275468b1'' \<and>
   generateProductHash \<lparr>title = [CHR ''a'', CHR 0x22], description = ''b\<newline>'', vendor = ''c'',
       price = Some ''9.99'', sku = None\<rparr> =
     ''946ccb7522ff404c9218b3e8982c4c3f73ae1f3b8e4d346304390d11275468b1'' \<and>
   generateProductHash \<lparr>title = [], description = [], vendor = []\<rparr> =
     ''dde950fcc765f58d3df3aa20b7e746613d8db74b72c5707a3c1af876371ad6f5''"
proof -
  let ?p = "\<lparr>title = [CHR ''a'', CHR 0x22], description = ''b\<newline>'', vendor = ''c''\<rparr>"
  let ?q = "\<lparr>title = [CHR ''a'', CHR 0x22], description = ''b\<newline>'', vendor = ''c'',
       price = Some ''9.99'', sku = None\<rparr>"
  let ?e = "\<lparr>title = [], description = [], vendor = []\<rparr>"
  have a: "sha256_hex
       (''{'' @ [CHR 0x22] @ ''description'' @ [CHR 0x22] @ '':'' @ QuoteJSONString (description ?p) @
        '','' @ [CHR 0x22] @ ''title'' @ [CHR 0x22] @ '':'' @ QuoteJSONString (title ?p) @
        '','' @ [CHR 0x22] @ ''vendor'' @ [CHR 0x22] @ '':'' @ QuoteJSONString (vendor ?p) @ ''}'') =
     ''946ccb7522ff404c9218b3e8982c4c3f73ae1f3b8e4d346304390d11275468b1''"
    by code_simp
  have b: "sha256_hex
       (''{'' @ [CHR 0x22] @ ''description'' @ [CHR 0x22] @ '':'' @ QuoteJSONString (description ?e) @
        '','' @ [CHR 0x22] @ ''title'' @ [CHR 0x22] @ '':'' @ QuoteJSONString (title ?e) @
        '','' @ [CHR 0x22] @ ''vendor'' @ [CHR 0x22] @ '':'' @ QuoteJSONString (vendor ?e) @ ''}'') =
     ''dde950fcc765f58d3df3aa20b7e746613d8db74b72c5707a3c1af876371ad6f5''"
    by code_simp
  have same: "description ?q = description ?p \<and> title ?q = title ?p \<and> vendor ?q = vendor ?p"
    by simp
  from generateProductHash_digest [of ?p ?q] generateProductHash_digest [of ?e ?e] a b same
  show ?thesis
    by metis
qed

text \<open>
  The string that is hashed determines the three values: quoting is a prefix code that
  never begins with a double quote, so a quoted string can be read back from the front
  of any text it is followed by. Two products that differ in the title, the description
  or the vendor are therefore hashed from different strings; their digests differ unless
  SHA-256 collides on the two strings.
\<close>

lemma sixteen_cases:
  assumes "n < (16::nat)"
  shows "n \<in> {0, 1, 2, 3, 4, 5, 6, 7, 8, 9, 10, 11, 12, 13, 14, 15}"
  using assms by simp arith

lemma hexdigit_value:
  assumes "n < 16"
  shows "(of_char (hexdigit n) :: nat) = (if n < 10 then 48 + n else 87 + n)"
  using sixteen_cases [OF assms] by (auto simp: hexdigit_def)

lemma QuoteJSONChar_prefix_free:
  assumes "QuoteJSONChar c @ r = QuoteJSONChar c' @ r'"
  shows "c = c' \<and> r = r'"
proof -
  define unhex :: "char \<Rightarrow> nat"
    where "unhex h = (if (of_char h :: nat) < 58 then of_char h - 48 else of_char h - 87)" for h
  define unquote :: "string \<Rightarrow> (char \<times> string) option"
    where "unquote xs =
      (case xs of
         [] \<Rightarrow> None
       | a # ys \<Rightarrow>
           if a \<noteq> CHR 0x5C then Some (a, ys)
           else (case ys of
             [] \<Rightarrow> None
           | b # zs \<Rightarrow>
               if b = CHR ''b'' then Some (CHR 0x08, zs)
               else if b = CHR ''t'' then Some (CHR 0x09, zs)
               else if b = CHR ''n'' then Some (CHR 0x0A, zs)
               else if b = CHR ''f'' then Some (CHR 0x0C, zs)
               else if b = CHR ''r'' then Some (CHR 0x0D, zs)
               else if b = CHR ''u'' then
                 (case zs of
                    z1 # z2 # h # l # ws \<Rightarrow> Some (char_of (16 * unhex h + unhex l), ws)
                  | _ \<Rightarrow> None)
               else Some (b, zs)))" for xs
  have unhex: "unhex (hexdigit n) = n" if "n < 16" for n
    using that by (simp add: unhex_def hexdigit_value)
  have decode: "unquote (QuoteJSONChar d @ s) = Some (d, s)" for d s
  proof (cases "(of_char d :: nat) < 0x20")
    case False
    then show ?thesis
      by (auto simp: QuoteJSONChar_def unquote_def)
  next
    case True
    then have hi: "(of_char d :: nat) div 16 < 16" and lo: "(of_char d :: nat) mod 16 < 16"
      by simp_all
    have "char_of (16 * (of_char d div 16) + of_char d mod 16 :: nat) = d"
      by simp
    then show ?thesis
      by (simp add: QuoteJSONChar_def unquote_def unhex [OF hi] unhex [OF lo])
  qed
  from assms have "unquote (QuoteJSONChar c @ r) = unquote (QuoteJSONChar c' @ r')"
    by simp
  then show ?thesis
    by (simp add: decode)
qed

lemma QuoteJSONChar_head:
  "\<exists>x xs. QuoteJSONChar c = x # xs \<and> x \<noteq> CHR 0x22"
  by (simp add: QuoteJSONChar_def)

lemma quoted_chars_inj:
  "concat (map QuoteJSONChar s) @ CHR 0x22 # r = concat (map QuoteJSONChar s') @ CHR 0x22 # r' \<Longrightarrow>
   s = s' \<and> r = r'"
proof (induction s arbitrary: s')
  case Nil
  show ?case
  proof (cases s')
    case Nil
    with Nil.prems show ?thesis by simp
  next
    case (Cons c' t')
    obtain x xs where "QuoteJSONChar c' = x # xs" and "x \<noteq> CHR 0x22"
      using QuoteJSONChar_head by blast
    with Nil.prems Cons show ?thesis by simp
  qed
next
  case (Cons c t)
  show ?case
  proof (cases s')
    case Nil
    obtain x xs where "QuoteJSONChar c = x # xs" and "x \<noteq> CHR 0x22"
      using QuoteJSONChar_head by blast
    with Cons.prems Nil show ?thesis by simp
  next
    case (Cons c' t')
    with Cons.prems have "QuoteJSONChar c @ (concat (map QuoteJSONChar t) @ CHR 0x22 # r) =
        QuoteJSONChar c' @ (concat (map QuoteJSONChar t') @ CHR 0x22 # r')"
      by simp
    then have "c = c'" and "concat (map QuoteJSONChar t) @ CHR 0x22 # r =
        concat (map QuoteJSONChar t') @ CHR 0x22 # r'"
      using QuoteJSONChar_prefix_free by blast+
    with Cons.IH [of t'] Cons show ?thesis by simp
  qed
qed

lemma QuoteJSONString_inj:
  "QuoteJSONString s @ r = QuoteJSONString s' @ r' \<Longrightarrow> s = s' \<and> r = r'"
  using quoted_chars_inj [of s r s' r'] by (simp add: QuoteJSONString_def)

lemma JSON_stringify_product_inj:
  assumes "JSON_stringify
      [(''description'', description p), (''title'', title p), (''vendor'', vendor p)] =
    JSON_stringify
      [(''description'', description q), (''title'', title q), (''vendor'', vendor q)]"
  shows "description p = description q \<and> title p = title q \<and> vendor p = vendor q"
proof -
  let ?k1 = "'','' @ QuoteJSONString ''title'' @ '':''"
  let ?k2 = "'','' @ QuoteJSONString ''vendor'' @ '':''"
  from assms have "QuoteJSONString (description p) @
      (?k1 @ QuoteJSONString (title p) @ ?k2 @ QuoteJSONString (vendor p) @ ''}'') =
    QuoteJSONString (description q) @
      (?k1 @ QuoteJSONString (title q) @ ?k2 @ QuoteJSONString (vendor q) @ ''}'')"
    by (simp add: JSON_stringify_def)
  then have d: "description p = description q"
    and "?k1 @ QuoteJSONString (title p) @ ?k2 @ QuoteJSONString (vendor p) @ ''}'' =
      ?k1 @ QuoteJSONString (title q) @ ?k2 @ QuoteJSONString (vendor q) @ ''}''"
    using QuoteJSONString_inj by blast+
  then have "QuoteJSONString (title p) @ (?k2 @ QuoteJSONString (vendor p) @ ''}'') =
      QuoteJSONString (title q) @ (?k2 @ QuoteJSONString (vendor q) @ ''}'')"
    by simp
  then have t: "title p = title q"
    and "?k2 @ QuoteJSONString (vendor p) @ ''}'' = ?k2 @ QuoteJSONString (vendor q) @ ''}''"
    using QuoteJSONString_inj by blast+
  then have "QuoteJSONString (vendor p) @ ''}'' = QuoteJSONString (vendor q) @ ''}''"
    by simp
  then have v: "vendor p = vendor q"
    using QuoteJSONString_inj by blast
  from d t v show ?thesis by simp
qed

end
